theory Spec2Isabelle
  imports Complex_Main
begin

section \<open>Errors\<close>

text \<open>
  Every failure of the code under study is an \<^verbatim>\<open>OpenSim::Exception\<close> raised through
  \<^verbatim>\<open>OPENSIM_THROW\<close> / \<^verbatim>\<open>OPENSIM_THROW_IF\<close> with a message. The exception is a value:
  a function that may throw returns \<open>error + 'a\<close>, with \<open>Inl\<close> for the throw.
\<close>

datatype error = Exception string

section \<open>CasOC: Problem, Solver, Transcription\<close>

text \<open>
  Modelled from the spec: the bounds of the missing \<^verbatim>\<open>CasOC::Problem\<close>. A bound is a
  lower and an upper value, \<open>None\<close> for "unbounded on that side"; bounds come in three
  tiers: default, initial-node override, final-node override.
\<close>

datatype tier = DefaultTier | InitialTier | FinalTier

type_synonym bounds = "real option \<times> real option"

text \<open>
  Modelled from the spec: the class \<^verbatim>\<open>CasOC::Problem\<close> (CasOCProblem.h is missing from
  the sources). The fields are the queries of the Problem contract: the dimensions
  \<open>n_x\<close>, \<open>n_u\<close>, \<open>n_p\<close>, the size \<open>n_g\<close> of the path-constraint output, whether an
  integral cost is present, the flag that requests constraint-derivative enforcement,
  and the bounds of each variable class and of the path constraints.
\<close>

record Problem =
  n_x :: nat
  n_u :: nat
  n_p :: nat
  n_g :: nat
  hasIntegralCost :: bool
  m_enforceConstraintDerivatives :: bool
  stateBounds :: "tier \<Rightarrow> nat \<Rightarrow> bounds"
  controlBounds :: "tier \<Rightarrow> nat \<Rightarrow> bounds"
  parameterBounds :: "nat \<Rightarrow> bounds"
  pathConstraintBounds :: "nat \<Rightarrow> bounds"

definition getEnforceConstraintDerivatives :: "Problem \<Rightarrow> bool" where
  "getEnforceConstraintDerivatives problem = m_enforceConstraintDerivatives problem"

text \<open>
  The Solver, with the three members that \<^verbatim>\<open>Solver::solve\<close> and the Trapezoidal
  constructor read: \<^verbatim>\<open>m_transcriptionScheme\<close>, \<^verbatim>\<open>m_problem\<close> and the mesh-point count
  behind \<^verbatim>\<open>getNumMeshPoints()\<close> (a C++ \<^verbatim>\<open>int\<close>).
\<close>

record Solver =
  m_transcriptionScheme :: string
  m_numMeshPoints :: int
  m_problem :: Problem

definition getNumMeshPoints :: "Solver \<Rightarrow> int" where
  "getNumMeshPoints solver = m_numMeshPoints solver"

text \<open>
  Modelled from the spec: the decision variables of the NLP, for the missing
  \<^verbatim>\<open>CasOC::Transcription\<close>: component \<open>i\<close> of the state at node \<open>k\<close>, component \<open>j\<close> of
  the control at node \<open>k\<close>, parameter \<open>j\<close>, and the quadrature-accumulation variable. A
  variable comes with its bounds.
\<close>

datatype Var =
    State_var nat nat
  | Control_var nat nat
  | Parameter_var nat
  | Quadrature_var

type_synonym variable = "Var \<times> bounds"

text \<open>
  Modelled from the spec: the base class \<^verbatim>\<open>CasOC::Transcription\<close> (CasOCTranscription.h
  is missing from the sources). It holds what it is constructed with (the solver, the
  problem, the number of mesh points, the number of grid points) and it owns the
  decision-variable set.
\<close>

record Transcription =
  t_solver :: Solver
  t_problem :: Problem
  t_numMeshPoints :: int
  t_numGridPoints :: int
  t_variables :: "variable list"

text \<open>
  Modelled from the spec: the constructor of the missing \<^verbatim>\<open>CasOC::Transcription\<close>. It
  stores its four arguments; no variable is allocated before
  \<^verbatim>\<open>createVariablesAndSetBounds()\<close> runs.
\<close>

definition Transcription_ctor :: "Solver \<Rightarrow> Problem \<Rightarrow> int \<Rightarrow> int \<Rightarrow> Transcription" where
  "Transcription_ctor solver problem numMeshPoints numGridPoints =
     \<lparr> t_solver = solver, t_problem = problem,
       t_numMeshPoints = numMeshPoints, t_numGridPoints = numGridPoints,
       t_variables = [] \<rparr>"

subsection \<open>The Trapezoidal constructor (CasOCTrapezoidal.h)\<close>

text \<open>
  The member-initialiser list of \<^verbatim>\<open>Trapezoidal::Trapezoidal\<close>: the base is constructed
  from the solver, the problem and, twice, \<^verbatim>\<open>solver.getNumMeshPoints()\<close>.
\<close>

definition Trapezoidal_base :: "Solver \<Rightarrow> Problem \<Rightarrow> Transcription" where
  "Trapezoidal_base solver problem =
     Transcription_ctor solver problem (getNumMeshPoints solver) (getNumMeshPoints solver)"

definition msg_constraint_derivatives :: string where
  "msg_constraint_derivatives =
     ''Enforcing kinematic constraint derivatives '' @
     ''not supported with trapezoidal transcription.''"

text \<open>
  The constructor body: \<^verbatim>\<open>OPENSIM_THROW_IF\<close> on the problem's flag, then
  \<^verbatim>\<open>createVariablesAndSetBounds()\<close>. That member function belongs to the base class; it
  is the argument \<open>cvsb\<close> here, so that what is proved of the constructor holds for
  whatever it does (throwing included).
\<close>

definition Trapezoidal ::
  "(Transcription \<Rightarrow> error + Transcription) \<Rightarrow> Solver \<Rightarrow> Problem \<Rightarrow> error + Transcription"
where
  "Trapezoidal cvsb solver problem =
     (let this = Trapezoidal_base solver problem in
      if getEnforceConstraintDerivatives problem
      then Inl (Exception msg_constraint_derivatives)
      else cvsb this)"

subsection \<open>Solver::solve (CasOCProblem.cpp)\<close>

text \<open>\<^verbatim>\<open>format("Unknown transcription scheme '%s'.", m_transcriptionScheme)\<close>\<close>

definition msg_unknown_scheme :: "string \<Rightarrow> string" where
  "msg_unknown_scheme scheme =
     ''Unknown transcription scheme '' @ [CHR 0x27] @ scheme @ [CHR 0x27] @ ''.''"

text \<open>
  \<^verbatim>\<open>Solver::solve\<close>. \<^verbatim>\<open>Transcription::solve()\<close>, which builds the NLP and calls the
  external solver, is the argument \<open>tsolve\<close>; the type of the Solution is left open.
\<close>

definition solve ::
  "(Transcription \<Rightarrow> error + Transcription) \<Rightarrow> (Transcription \<Rightarrow> error + 'solution)
     \<Rightarrow> Solver \<Rightarrow> error + 'solution"
where
  "solve cvsb tsolve this =
     (if m_transcriptionScheme this = ''trapezoidal''
      then (case Trapezoidal cvsb this (m_problem this) of
              Inl e \<Rightarrow> Inl e
            | Inr transcription \<Rightarrow> tsolve transcription)
      else Inl (Exception (msg_unknown_scheme (m_transcriptionScheme this))))"

section \<open>MocoOrientationTrackingCost (MocoOrientationTrackingCost.h)\<close>

text \<open>
  \<^verbatim>\<open>TimeSeriesTable_<T>\<close> is declared outside the sources; the setters only assign tables
  and default-constructed tables. A table is its column labels and its rows (a time and
  one value per column); the default-constructed table has neither.
\<close>

record 'T TimeSeriesTable_ =
  columnLabels :: "string list"
  tableRows :: "(real \<times> 'T list) list"

definition TimeSeriesTable_default :: "'T TimeSeriesTable_" where
  "TimeSeriesTable_default = \<lparr> columnLabels = [], tableRows = [] \<rparr>"

text \<open>
  \<^verbatim>\<open>MocoWeightSet\<close> (an OpenSim \<^verbatim>\<open>Set<MocoWeight>\<close>) is declared outside the sources. It
  is an ordered collection of named weights in which names may repeat, so it is a list;
  \<^verbatim>\<open>contains(name)\<close> and \<^verbatim>\<open>get(name)\<close> look for the first object of that name,
  \<^verbatim>\<open>get(name)\<close> throws when there is none, and \<^verbatim>\<open>cloneAndAppend\<close> adds a copy at the end.
\<close>

record MocoWeight =
  w_name :: string
  w_weight :: real

type_synonym MocoWeightSet = "MocoWeight list"

fun getIndex :: "MocoWeightSet \<Rightarrow> string \<Rightarrow> nat option" where
  "getIndex [] aName = None"
| "getIndex (w # ws) aName =
     (if w_name w = aName then Some 0 else map_option Suc (getIndex ws aName))"

definition contains :: "MocoWeightSet \<Rightarrow> string \<Rightarrow> bool" where
  "contains s aName = (getIndex s aName \<noteq> None)"

definition Set_get :: "MocoWeightSet \<Rightarrow> string \<Rightarrow> error + nat" where
  "Set_get s aName =
     (case getIndex s aName of
        None \<Rightarrow> Inl (Exception (''Set.get: object '' @ aName @ '' not found''))
      | Some i \<Rightarrow> Inr i)"

definition MocoWeight_setWeight :: "MocoWeight \<Rightarrow> real \<Rightarrow> MocoWeight" where
  "MocoWeight_setWeight w weight = w\<lparr> w_weight := weight \<rparr>"

definition cloneAndAppend :: "MocoWeightSet \<Rightarrow> MocoWeight \<Rightarrow> MocoWeightSet" where
  "cloneAndAppend s w = s @ [w]"

text \<open>
  The cost term: its three properties and its two tables. (The \<^verbatim>\<open>mutable\<close> caches
  \<^verbatim>\<open>m_ref_splines\<close>, \<^verbatim>\<open>m_model_frames\<close> and \<^verbatim>\<open>m_rotation_weights\<close> are written only
  by \<^verbatim>\<open>initializeOnModelImpl\<close>, which is not in this header.)
\<close>

record 'rot MocoOrientationTrackingCost =
  reference_file :: string
  frame_paths :: "string list"
  rotation_weights :: MocoWeightSet
  m_states_table :: "real TimeSeriesTable_"
  m_rotation_table :: "'rot TimeSeriesTable_"

definition constructProperties :: "'rot MocoOrientationTrackingCost" where
  "constructProperties =
     \<lparr> reference_file = [], frame_paths = [], rotation_weights = [],
       m_states_table = TimeSeriesTable_default,
       m_rotation_table = TimeSeriesTable_default \<rparr>"

definition setStatesReferenceFile ::
  "string \<Rightarrow> 'rot MocoOrientationTrackingCost \<Rightarrow> 'rot MocoOrientationTrackingCost" where
  "setStatesReferenceFile filepath this =
     (let this = this\<lparr> m_states_table := TimeSeriesTable_default \<rparr>;
          this = this\<lparr> m_rotation_table := TimeSeriesTable_default \<rparr>
      in this\<lparr> reference_file := filepath \<rparr>)"

definition setStatesReference ::
  "real TimeSeriesTable_ \<Rightarrow> 'rot MocoOrientationTrackingCost
     \<Rightarrow> 'rot MocoOrientationTrackingCost" where
  "setStatesReference ref this =
     (let this = this\<lparr> reference_file := [] \<rparr>;
          this = this\<lparr> m_rotation_table := TimeSeriesTable_default \<rparr>
      in this\<lparr> m_states_table := ref \<rparr>)"

definition setRotationReference ::
  "'rot TimeSeriesTable_ \<Rightarrow> 'rot MocoOrientationTrackingCost
     \<Rightarrow> 'rot MocoOrientationTrackingCost" where
  "setRotationReference ref this =
     (let this = this\<lparr> m_states_table := TimeSeriesTable_default \<rparr>;
          this = this\<lparr> reference_file := [] \<rparr>
      in this\<lparr> m_rotation_table := ref \<rparr>)"

definition getReferenceFile :: "'rot MocoOrientationTrackingCost \<Rightarrow> string" where
  "getReferenceFile this = reference_file this"

text \<open>
  The number of reference sources that hold something: the \<^verbatim>\<open>reference_file\<close> property
  differs from the empty string, a table differs from the default-constructed one.
\<close>

definition nonempty_sources :: "'rot MocoOrientationTrackingCost \<Rightarrow> nat" where
  "nonempty_sources this =
     (if reference_file this \<noteq> [] then 1 else 0)
   + (if m_states_table this \<noteq> TimeSeriesTable_default then 1 else 0)
   + (if m_rotation_table this \<noteq> TimeSeriesTable_default then 1 else 0)"

text \<open>
  \<^verbatim>\<open>setWeight\<close>: \<^verbatim>\<open>get(frameName)\<close> is the one call that can throw, so the result is a
  sum.
\<close>

definition setWeight ::
  "string \<Rightarrow> real \<Rightarrow> 'rot MocoOrientationTrackingCost
     \<Rightarrow> error + 'rot MocoOrientationTrackingCost" where
  "setWeight frameName weight this =
     (if contains (rotation_weights this) frameName
      then (case Set_get (rotation_weights this) frameName of
              Inl e \<Rightarrow> Inl e
            | Inr i \<Rightarrow>
                Inr (this\<lparr> rotation_weights :=
                       (rotation_weights this)
                         [i := MocoWeight_setWeight (rotation_weights this ! i) weight] \<rparr>))
      else Inr (this\<lparr> rotation_weights :=
                  cloneAndAppend (rotation_weights this)
                    \<lparr> w_name = frameName, w_weight = weight \<rparr> \<rparr>))"

section \<open>simulate (SimulationUtilities.h)\<close>

text \<open>
  \<^verbatim>\<open>SimTK::State\<close> and \<^verbatim>\<open>OpenSim::Model\<close> are declared outside the sources. Of a state
  the function reads and writes the time; the rest is the vector of state values. Of a
  model it reads \<^verbatim>\<open>getUseVisualizer()\<close> and \<^verbatim>\<open>getName()\<close>.
\<close>

record State =
  s_time :: real
  s_values :: "real list"

definition getTime :: "State \<Rightarrow> real" where
  "getTime s = s_time s"

definition setTime :: "State \<Rightarrow> real \<Rightarrow> State" where
  "setTime s t = s\<lparr> s_time := t \<rparr>"

record Model =
  m_useVisualizer :: bool
  m_name :: string

definition getUseVisualizer :: "Model \<Rightarrow> bool" where
  "getUseVisualizer model = m_useVisualizer model"

definition getName :: "Model \<Rightarrow> string" where
  "getName model = m_name model"

text \<open>
  A key press delivered by \<^verbatim>\<open>waitForKeyHit\<close>: either \<^verbatim>\<open>KeyEsc\<close> or another key code.
  The key presses to come are a list; when it is exhausted \<^verbatim>\<open>waitForKeyHit\<close> blocks for
  ever.
\<close>

datatype key = KeyEsc | OtherKey nat

text \<open>What the function does to the outside: console output, visualizer, integrator, file.\<close>

datatype event =
    Cout_simulation_aborted real
  | Viz_addDecoration_help
  | Viz_setShowSimTime
  | Viz_drawFrameNow State
  | Cout_visualizer_opened
  | Silo_clear
  | Silo_waitForKeyHit key
  | Manager_integrate State real
  | Storage_print string

text \<open>
  The variables of one call: the caller's object behind the reference \<^verbatim>\<open>initialState\<close>,
  the local \<^verbatim>\<open>state\<close> (which is what is returned), the local \<^verbatim>\<open>simulateOnce\<close>, and the
  events so far.
\<close>

record simulate_frame =
  initialState :: State
  state :: State
  simulateOnce :: bool
  events :: "event list"

definition emit :: "event list \<Rightarrow> simulate_frame \<Rightarrow> simulate_frame" where
  "emit es fr = fr\<lparr> events := events fr @ es \<rparr>"

text \<open>
  The head of the loop body: with a visualizer, clear the silo and wait for a key;
  \<^verbatim>\<open>KeyEsc\<close> breaks. The result is \<open>None\<close> when the wait never ends, else whether the loop
  breaks, the keys left, and the frame.
\<close>

definition wait_for_key ::
  "Model \<Rightarrow> key list \<Rightarrow> simulate_frame \<Rightarrow> (bool \<times> key list \<times> simulate_frame) option" where
  "wait_for_key model keys fr =
     (if getUseVisualizer model
      then (case keys of
              [] \<Rightarrow> None
            | k # rest \<Rightarrow> Some (k = KeyEsc, rest, emit [Silo_clear, Silo_waitForKeyHit k] fr))
      else Some (False, keys, fr))"

text \<open>
  The rest of the loop body. \<open>integrate model s finalTime\<close> stands for the integrator and
  manager set up on the model, \<^verbatim>\<open>manager.initialize(state)\<close> and
  \<^verbatim>\<open>manager.integrate(finalTime)\<close>.
\<close>

definition simulate_body ::
  "(Model \<Rightarrow> State \<Rightarrow> real \<Rightarrow> State) \<Rightarrow> Model \<Rightarrow> real \<Rightarrow> bool \<Rightarrow> real
     \<Rightarrow> simulate_frame \<Rightarrow> simulate_frame" where
  "simulate_body integrate model finalTime saveStatesFile initialTime fr =
     (let fr = fr\<lparr> state := initialState fr \<rparr>;
          fr = fr\<lparr> state := setTime (state fr) initialTime \<rparr>;
          fr = emit [Manager_integrate (state fr) finalTime]
                 (fr\<lparr> state := integrate model (state fr) finalTime \<rparr>)
      in if saveStatesFile then emit [Storage_print (getName model @ ''_states.sto'')] fr
         else fr)"

partial_function (option) simulate_loop ::
  "(Model \<Rightarrow> State \<Rightarrow> real \<Rightarrow> State) \<Rightarrow> Model \<Rightarrow> real \<Rightarrow> bool \<Rightarrow> real
     \<Rightarrow> key list \<Rightarrow> simulate_frame \<Rightarrow> simulate_frame option" where
  "simulate_loop integrate model finalTime saveStatesFile initialTime keys fr =
     (case wait_for_key model keys fr of
        None \<Rightarrow> None
      | Some (brk, rest, fr1) \<Rightarrow>
          if brk then Some fr1
          else if \<not> simulateOnce
                      (simulate_body integrate model finalTime saveStatesFile initialTime fr1)
               then simulate_loop integrate model finalTime saveStatesFile initialTime rest
                      (simulate_body integrate model finalTime saveStatesFile initialTime fr1)
               else Some (simulate_body integrate model finalTime saveStatesFile
                            initialTime fr1))"

text \<open>
  \<^verbatim>\<open>simulate\<close>. The value returned to the caller is the \<open>state\<close> of the final frame;
  \<open>None\<close> is a call that never returns.
\<close>

definition simulate ::
  "(Model \<Rightarrow> State \<Rightarrow> real \<Rightarrow> State) \<Rightarrow> key list \<Rightarrow> Model \<Rightarrow> State \<Rightarrow> real \<Rightarrow> bool
     \<Rightarrow> simulate_frame option" where
  "simulate integrate keys model initialState0 finalTime saveStatesFile =
     (let fr = \<lparr> initialState = initialState0, state = initialState0,
                 simulateOnce = True, events = [] \<rparr>;
          initialTime = getTime (initialState fr)
      in if finalTime \<le> initialTime
         then Some (emit [Cout_simulation_aborted initialTime] fr)
         else
           (let fr = (if getUseVisualizer model
                      then (emit [Viz_addDecoration_help, Viz_setShowSimTime,
                                  Viz_drawFrameNow (state fr), Cout_visualizer_opened] fr)
                             \<lparr> simulateOnce := False \<rparr>
                      else fr)
            in simulate_loop integrate model finalTime saveStatesFile initialTime keys fr))"

section \<open>The trapezoidal scheme's NLP\<close>

text \<open>
  The member functions of this section are declared in CasOCTrapezoidal.h or called from
  it; their definitions (CasOCTranscription.cpp, CasOCTrapezoidal.cpp) are not part of
  the sources. Vectors and the values of expressions are lists of reals and reals.
\<close>

subsection \<open>Decision variables\<close>

text \<open>
  Modelled from the spec: the tier of bounds that applies at node \<open>k\<close> of \<open>N\<close>, for the
  missing \<^verbatim>\<open>createVariablesAndSetBounds()\<close>: the initial tier at node \<open>0\<close>, the final
  tier at node \<open>N-1\<close>, the default tier at every other node.
\<close>

definition node_tier :: "nat \<Rightarrow> nat \<Rightarrow> tier" where
  "node_tier N k =
     (if k = 0 then InitialTier else if k + 1 = N then FinalTier else DefaultTier)"

text \<open>
  Modelled from the spec: the variables of node \<open>k\<close>, for the missing
  \<^verbatim>\<open>createVariablesAndSetBounds()\<close>: a state vector of \<open>n_x\<close> variables and a control
  vector of \<open>n_u\<close> variables, with the problem's bounds of the node's tier.
\<close>

definition node_variables :: "Problem \<Rightarrow> nat \<Rightarrow> nat \<Rightarrow> variable list" where
  "node_variables problem N k =
     map (\<lambda>i. (State_var k i, stateBounds problem (node_tier N k) i)) [0..<n_x problem]
   @ map (\<lambda>j. (Control_var k j, controlBounds problem (node_tier N k) j)) [0..<n_u problem]"

text \<open>
  Modelled from the spec: \<^verbatim>\<open>Transcription::createVariablesAndSetBounds()\<close>, which is
  missing from the sources. With \<open>N\<close> the number of mesh points, it allocates the
  variables of each node \<open>k < N\<close>, then the \<open>n_p\<close> parameters, then one scalar
  quadrature-accumulation variable if the problem has an integral cost.
\<close>

definition createVariablesAndSetBounds :: "Transcription \<Rightarrow> error + Transcription" where
  "createVariablesAndSetBounds this =
     (let problem = t_problem this;
          N = nat (t_numMeshPoints this)
      in Inr (this\<lparr> t_variables :=
                concat (map (node_variables problem N) [0..<N])
              @ map (\<lambda>j. (Parameter_var j, parameterBounds problem j)) [0..<n_p problem]
              @ (if hasIntegralCost problem then [(Quadrature_var, (None, None))] else []) \<rparr>))"

subsection \<open>Quadrature coefficients\<close>

text \<open>
  Modelled from the spec: the interval width \<open>h\<^sub>k = t\<^sub>k\<^sub>+\<^sub>1 - t\<^sub>k\<close> of the mesh
  \<open>t\<^sub>0, \<dots>, t\<^sub>N\<^sub>-\<^sub>1\<close>, for the missing \<^verbatim>\<open>createQuadratureCoefficientsImpl()\<close> and
  \<^verbatim>\<open>applyConstraintsImpl()\<close>.
\<close>

definition meshInterval :: "real list \<Rightarrow> nat \<Rightarrow> real" where
  "meshInterval mesh k = mesh ! (k + 1) - mesh ! k"

text \<open>
  Modelled from the spec: the weight of node \<open>k\<close>, for the missing
  \<^verbatim>\<open>createQuadratureCoefficientsImpl()\<close>: \<open>w\<^sub>0 = h\<^sub>0/2\<close>, \<open>w\<^sub>N\<^sub>-\<^sub>1 = h\<^sub>N\<^sub>-\<^sub>2/2\<close>, and
  \<open>w\<^sub>k = (h\<^sub>k\<^sub>-\<^sub>1 + h\<^sub>k)/2\<close> for an interior \<open>k\<close>. The spec's mesh has \<open>N \<ge> 2\<close> nodes.
\<close>

definition quadratureCoefficient :: "real list \<Rightarrow> nat \<Rightarrow> real" where
  "quadratureCoefficient mesh k =
     (let N = length mesh in
      if k = 0 then meshInterval mesh 0 / 2
      else if k = N - 1 then meshInterval mesh (N - 2) / 2
      else (meshInterval mesh (k - 1) + meshInterval mesh k) / 2)"

text \<open>
  Modelled from the spec: \<^verbatim>\<open>Trapezoidal::createQuadratureCoefficientsImpl()\<close>, which is
  missing from the sources: one weight per node.
\<close>

definition createQuadratureCoefficients :: "real list \<Rightarrow> real list" where
  "createQuadratureCoefficients mesh = map (quadratureCoefficient mesh) [0..<length mesh]"

subsection \<open>Constraints\<close>

text \<open>
  Modelled from the spec: a row of the NLP constraint set, for the missing
  \<^verbatim>\<open>applyConstraintsImpl()\<close>: a lower bound, an upper bound (\<open>None\<close> is unbounded) and
  the constrained expression's value. Rows come in blocks, a defect block per mesh
  interval and a path-constraint block per node.
\<close>

record constraint =
  c_lower :: "real option"
  c_upper :: "real option"
  c_expr :: real

datatype block_kind = Defect nat | Path nat

type_synonym constraint_block = "block_kind \<times> constraint list"

text \<open>
  Modelled from the spec: a component constrained to equal zero exactly, for the missing
  \<^verbatim>\<open>applyConstraintsImpl()\<close>.
\<close>

definition equality_constraint :: "real \<Rightarrow> constraint" where
  "equality_constraint e = \<lparr> c_lower = Some 0, c_upper = Some 0, c_expr = e \<rparr>"

text \<open>
  Modelled from the spec: sum, difference and scaling of vectors, for the defect of the
  missing \<^verbatim>\<open>applyConstraintsImpl()\<close>.
\<close>

definition vec_add :: "real list \<Rightarrow> real list \<Rightarrow> real list" where
  "vec_add a b = map (\<lambda>(x, y). x + y) (zip a b)"

definition vec_sub :: "real list \<Rightarrow> real list \<Rightarrow> real list" where
  "vec_sub a b = map (\<lambda>(x, y). x - y) (zip a b)"

definition vec_scale :: "real \<Rightarrow> real list \<Rightarrow> real list" where
  "vec_scale c a = map (\<lambda>x. c * x) a"

text \<open>
  Modelled from the spec: the defect of one mesh interval, for the missing
  \<^verbatim>\<open>applyConstraintsImpl()\<close>: the vector \<open>x\<^sub>k\<^sub>+\<^sub>1 - x\<^sub>k - (h\<^sub>k/2) (xdot\<^sub>k + xdot\<^sub>k\<^sub>+\<^sub>1)\<close>.
\<close>

definition defect :: "real \<Rightarrow> real list \<Rightarrow> real list \<Rightarrow> real list \<Rightarrow> real list \<Rightarrow> real list" where
  "defect h x_k x_k1 xdot_k xdot_k1 =
     vec_sub (vec_sub x_k1 x_k) (vec_scale (h / 2) (vec_add xdot_k xdot_k1))"

text \<open>
  Modelled from the spec: the defect block of interval \<open>k\<close>, for the missing
  \<^verbatim>\<open>applyConstraintsImpl()\<close>: every component of the defect is an equality constraint.
\<close>

definition defect_block ::
  "real list \<Rightarrow> real list list \<Rightarrow> real list list \<Rightarrow> nat \<Rightarrow> constraint_block" where
  "defect_block mesh states xdot k =
     (Defect k,
      map equality_constraint
        (defect (meshInterval mesh k) (states ! k) (states ! (k + 1))
           (xdot ! k) (xdot ! (k + 1))))"

text \<open>
  Modelled from the spec: the path-constraint block of node \<open>k\<close>, for the missing
  \<^verbatim>\<open>applyConstraintsImpl()\<close>: the \<open>n_g\<close> outputs of the problem's path-constraint
  evaluator at the node, each within the problem's bounds.
\<close>

definition path_block :: "Problem \<Rightarrow> real list list \<Rightarrow> nat \<Rightarrow> constraint_block" where
  "path_block problem path k =
     (Path k,
      map (\<lambda>j. \<lparr> c_lower = fst (pathConstraintBounds problem j),
                 c_upper = snd (pathConstraintBounds problem j),
                 c_expr = path ! k ! j \<rparr>) [0..<n_g problem])"

text \<open>
  Modelled from the spec: \<^verbatim>\<open>Trapezoidal::applyConstraintsImpl()\<close>, which is missing from
  the sources. It is given the mesh and, node by node, the state vectors, the evaluated
  dynamics derivatives and the path-constraint values; it emits the defect block of each
  mesh interval \<open>k = 0, \<dots>, N-2\<close> and then the path-constraint block of each node.
\<close>

definition applyConstraints ::
  "Problem \<Rightarrow> real list \<Rightarrow> real list list \<Rightarrow> real list list \<Rightarrow> real list list
     \<Rightarrow> constraint_block list" where
  "applyConstraints problem mesh states xdot path =
     map (defect_block mesh states xdot) [0..<length mesh - 1]
   @ map (path_block problem path) [0..<length mesh]"

text \<open>Reading a constraint set: its defect blocks, its path blocks, a number of rows.\<close>

fun is_defect :: "constraint_block \<Rightarrow> bool" where
  "is_defect (Defect k, cs) = True"
| "is_defect (Path k, cs) = False"

definition defect_blocks :: "constraint_block list \<Rightarrow> constraint_block list" where
  "defect_blocks bs = filter is_defect bs"

definition path_blocks :: "constraint_block list \<Rightarrow> constraint_block list" where
  "path_blocks bs = filter (\<lambda>b. \<not> is_defect b) bs"

definition num_equations :: "constraint_block list \<Rightarrow> nat" where
  "num_equations bs = sum_list (map (\<lambda>b. length (snd b)) bs)"

section \<open>Example inputs\<close>

definition example_problem :: Problem where
  "example_problem =
     \<lparr> n_x = 2, n_u = 1, n_p = 1, n_g = 1,
       hasIntegralCost = True,
       m_enforceConstraintDerivatives = False,
       stateBounds = (\<lambda>tr i. if tr = InitialTier then (Some 0, Some 0) else (Some (-5), Some 5)),
       controlBounds = (\<lambda>tr j. (Some (-1), Some 1)),
       parameterBounds = (\<lambda>j. (None, None)),
       pathConstraintBounds = (\<lambda>j. (None, Some 0)) \<rparr>"

definition example_solver :: Solver where
  "example_solver =
     \<lparr> m_transcriptionScheme = ''trapezoidal'', m_numMeshPoints = 3,
       m_problem = example_problem \<rparr>"

definition example_mesh :: "real list" where
  "example_mesh = [0, 1/4, 1]"

definition example_states :: "real list list" where
  "example_states = [[0, 1], [1, 3], [2, 2]]"

definition example_xdot :: "real list list" where
  "example_xdot = [[4, 0], [2, 2], [0, 4]]"

definition example_path :: "real list list" where
  "example_path = [[-1], [-2], [-3]]"

definition example_cost :: "unit MocoOrientationTrackingCost" where
  "example_cost =
     constructProperties
       \<lparr> rotation_weights :=
           [\<lparr> w_name = ''/bodyset/torso'', w_weight = 1 \<rparr>,
            \<lparr> w_name = ''/bodyset/pelvis'', w_weight = 2 \<rparr>,
            \<lparr> w_name = ''/bodyset/torso'', w_weight = 3 \<rparr>] \<rparr>"

definition example_state :: State where
  "example_state = \<lparr> s_time = 1, s_values = [0, 0] \<rparr>"

definition example_integrate :: "Model \<Rightarrow> State \<Rightarrow> real \<Rightarrow> State" where
  "example_integrate model s finalTime = \<lparr> s_time = finalTime, s_values = [1, 1] \<rparr>"

definition example_rejected_problem :: Problem where
  "example_rejected_problem = example_problem\<lparr> m_enforceConstraintDerivatives := True \<rparr>"

definition example_rejected_solver :: Solver where
  "example_rejected_solver = example_solver\<lparr> m_problem := example_rejected_problem \<rparr>"

definition example_unknown_solver :: Solver where
  "example_unknown_solver = example_solver\<lparr> m_transcriptionScheme := ''Trapezoidal'' \<rparr>"

section \<open>Theorems\<close>

subsection \<open>Scheme selection and construction\<close>

text \<open>
  C1. Constructing the Trapezoidal transcription for a problem with
  \<open>enforceConstraintDerivatives = true\<close> fails, for every mesh-point count (so for every
  \<open>N \<ge> 2\<close>), with the exception "Enforcing kinematic constraint derivatives not supported
  with trapezoidal transcription." (the spec's UnsupportedFeatureError). The failure does
  not depend on \<open>createVariablesAndSetBounds\<close>, which is therefore never reached, and
  \<open>Solver::solve\<close> with the trapezoidal scheme fails in the same way without reaching
  \<open>Transcription::solve\<close>: no variable is allocated and no NLP is built.
\<close>

theorem Trapezoidal_rejects_constraint_derivatives:
  assumes "getEnforceConstraintDerivatives problem"
  shows "Trapezoidal cvsb solver problem = Inl (Exception msg_constraint_derivatives)
       \<and> (m_transcriptionScheme solver = ''trapezoidal'' \<and> m_problem solver = problem
            \<longrightarrow> solve cvsb tsolve solver = Inl (Exception msg_constraint_derivatives))"
  using assms by (simp add: Trapezoidal_def solve_def)

theorem Trapezoidal_rejects_constraint_derivatives_witness:
  "getEnforceConstraintDerivatives example_rejected_problem
   \<and> 2 \<le> getNumMeshPoints example_rejected_solver
   \<and> Trapezoidal createVariablesAndSetBounds example_rejected_solver example_rejected_problem
       = Inl (Exception msg_constraint_derivatives)
   \<and> solve createVariablesAndSetBounds (\<lambda>t. Inr (length (t_variables t))) example_rejected_solver
       = Inl (Exception msg_constraint_derivatives)"
proof -
  have h: "getEnforceConstraintDerivatives example_rejected_problem"
    by (simp add: getEnforceConstraintDerivatives_def example_rejected_problem_def)
  have s: "m_transcriptionScheme example_rejected_solver = ''trapezoidal''
         \<and> m_problem example_rejected_solver = example_rejected_problem"
    by (simp add: example_rejected_solver_def example_solver_def)
  have n: "2 \<le> getNumMeshPoints example_rejected_solver"
    by (simp add: getNumMeshPoints_def example_rejected_solver_def example_solver_def)
  from Trapezoidal_rejects_constraint_derivatives [OF h, of createVariablesAndSetBounds
      example_rejected_solver "\<lambda>t. Inr (length (t_variables t))"] h s n
  show ?thesis by blast
qed

text \<open>
  C2. For every configured scheme name other than "trapezoidal", \<open>Solver::solve\<close> fails
  with the exception whose message is "Unknown transcription scheme '<name>'." (the
  spec's ConfigurationError), naming the offending string. The failure does not depend
  on \<open>createVariablesAndSetBounds\<close> nor on \<open>Transcription::solve\<close>: no Transcription is
  constructed, no NLP is built, the external solver is not invoked.
\<close>

theorem solve_unknown_scheme:
  assumes "m_transcriptionScheme solver \<noteq> ''trapezoidal''"
  shows "solve cvsb tsolve solver =
           Inl (Exception (''Unknown transcription scheme '' @ [CHR 0x27]
                             @ m_transcriptionScheme solver @ [CHR 0x27] @ ''.''))"
  using assms by (simp add: solve_def msg_unknown_scheme_def)

theorem solve_unknown_scheme_witness:
  "m_transcriptionScheme example_unknown_solver \<noteq> ''trapezoidal''
   \<and> solve createVariablesAndSetBounds (\<lambda>t. Inr (length (t_variables t))) example_unknown_solver
       = Inl (Exception (''Unknown transcription scheme '' @ [CHR 0x27]
                             @ ''Trapezoidal'' @ [CHR 0x27] @ ''.''))"
proof -
  have h: "m_transcriptionScheme example_unknown_solver \<noteq> ''trapezoidal''"
    by (simp add: example_unknown_solver_def)
  have e: "m_transcriptionScheme example_unknown_solver = ''Trapezoidal''"
    by (simp add: example_unknown_solver_def)
  from solve_unknown_scheme [OF h, of createVariablesAndSetBounds "\<lambda>t. Inr (length (t_variables t))"] h e
  show ?thesis by simp
qed

text \<open>
  C6. The Trapezoidal constructor passes \<open>solver.getNumMeshPoints()\<close> to the Transcription
  base both as the number of mesh points and as the number of grid points: the two
  counts are equal, and equal to the solver's configured mesh-point count.
\<close>

theorem Trapezoidal_mesh_and_grid_points_equal:
  "t_numMeshPoints (Trapezoidal_base solver problem) = getNumMeshPoints solver
   \<and> t_numGridPoints (Trapezoidal_base solver problem) = getNumMeshPoints solver
   \<and> t_numMeshPoints (Trapezoidal_base solver problem)
       = t_numGridPoints (Trapezoidal_base solver problem)"
  by (simp add: Trapezoidal_base_def Transcription_ctor_def)

text \<open>
  C7. When the scheme name is the recognized one and the matching Transcription has been
  constructed, \<open>Solver::solve\<close> returns exactly what that Transcription's \<open>solve()\<close>
  returns: the Solution reaches the caller unchanged, whatever its type and content.
\<close>

theorem solve_delegates_to_transcription:
  assumes "m_transcriptionScheme solver = ''trapezoidal''"
      and "Trapezoidal cvsb solver (m_problem solver) = Inr transcription"
  shows "solve cvsb tsolve solver = tsolve transcription"
  using assms by (simp add: solve_def)

theorem solve_delegates_to_transcription_witness:
  "m_transcriptionScheme example_solver = ''trapezoidal''
   \<and> Trapezoidal Inr example_solver (m_problem example_solver)
       = Inr (Trapezoidal_base example_solver example_problem)
   \<and> solve Inr (\<lambda>t. Inr (''solution'', t_numMeshPoints t)) example_solver
       = Inr (''solution'', 3)"
proof -
  have h1: "m_transcriptionScheme example_solver = ''trapezoidal''"
    by (simp add: example_solver_def)
  have h2: "Trapezoidal Inr example_solver (m_problem example_solver)
              = Inr (Trapezoidal_base example_solver example_problem)"
    by (simp add: Trapezoidal_def example_solver_def example_problem_def
          getEnforceConstraintDerivatives_def)
  have v: "t_numMeshPoints (Trapezoidal_base example_solver example_problem) = 3"
    by (simp add: Trapezoidal_base_def Transcription_ctor_def getNumMeshPoints_def
          example_solver_def)
  from solve_delegates_to_transcription
         [OF h1 h2, of "\<lambda>t. Inr (''solution'', t_numMeshPoints t)"] h1 h2 v
  show ?thesis by simp
qed

subsection \<open>The reference sources and the weights of MocoOrientationTrackingCost\<close>

text \<open>
  C8. After \<open>setStatesReferenceFile\<close>, \<open>setStatesReference\<close> or \<open>setRotationReference\<close>,
  at most one of the three reference sources (the \<open>reference_file\<close> property, the states
  table, the rotation table) is non-empty: the setter has cleared the other two and
  installed its own argument.
\<close>

theorem reference_setters_leave_one_source:
  "nonempty_sources (setStatesReferenceFile filepath this) \<le> 1
   \<and> nonempty_sources (setStatesReference states_ref this) \<le> 1
   \<and> nonempty_sources (setRotationReference rotation_ref this) \<le> 1
   \<and> reference_file (setStatesReferenceFile filepath this) = filepath
   \<and> m_states_table (setStatesReferenceFile filepath this) = TimeSeriesTable_default
   \<and> m_rotation_table (setStatesReferenceFile filepath this) = TimeSeriesTable_default
   \<and> reference_file (setStatesReference states_ref this) = []
   \<and> m_states_table (setStatesReference states_ref this) = states_ref
   \<and> m_rotation_table (setStatesReference states_ref this) = TimeSeriesTable_default
   \<and> reference_file (setRotationReference rotation_ref this) = []
   \<and> m_states_table (setRotationReference rotation_ref this) = TimeSeriesTable_default
   \<and> m_rotation_table (setRotationReference rotation_ref this) = rotation_ref"
  by (simp add: nonempty_sources_def setStatesReferenceFile_def setStatesReference_def
        setRotationReference_def)

lemma getIndex_Some:
  "getIndex s aName = Some i \<Longrightarrow> i < length s \<and> w_name (s ! i) = aName
     \<and> (\<forall>j<i. w_name (s ! j) \<noteq> aName)"
proof (induction s arbitrary: i)
  case Nil
  then show ?case by simp
next
  case (Cons w ws)
  show ?case
  proof (cases "w_name w = aName")
    case True
    with Cons.prems show ?thesis by simp
  next
    case False
    with Cons.prems obtain i' where i': "getIndex ws aName = Some i'" "i = Suc i'"
      by auto
    from Cons.IH [OF i'(1)] have ih: "i' < length ws" "w_name (ws ! i') = aName"
      "\<forall>j<i'. w_name (ws ! j) \<noteq> aName" by simp_all
    have "\<forall>j<i. w_name ((w # ws) ! j) \<noteq> aName"
    proof (intro allI impI)
      fix j assume "j < i"
      then show "w_name ((w # ws) ! j) \<noteq> aName"
        using False ih(3) i'(2) by (cases j) simp_all
    qed
    with ih i'(2) show ?thesis by simp
  qed
qed

lemma getIndex_None: "getIndex s aName = None \<longleftrightarrow> (\<forall>w \<in> set s. w_name w \<noteq> aName)"
  by (induction s) auto

lemma getIndex_first:
  "i < length s \<Longrightarrow> w_name (s ! i) = aName \<Longrightarrow> (\<forall>j<i. w_name (s ! j) \<noteq> aName)
     \<Longrightarrow> getIndex s aName = Some i"
proof (induction s arbitrary: i)
  case Nil
  then show ?case by simp
next
  case (Cons w ws)
  show ?case
  proof (cases i)
    case 0
    with Cons.prems show ?thesis by simp
  next
    case (Suc i')
    with Cons.prems have "w_name w \<noteq> aName" by auto
    moreover have "getIndex ws aName = Some i'"
      using Cons.prems Suc by (intro Cons.IH) auto
    ultimately show ?thesis using Suc by simp
  qed
qed

text \<open>
  C9. \<open>setWeight\<close> never throws. If the rotation-weight set already contains an entry of
  the frame name, that entry's weight is replaced by the given value; otherwise an entry
  with that name and weight is appended. Afterwards the set contains the frame name, and
  the entry that a lookup by that name finds has the given weight. No other member of the
  cost term changes.
\<close>

theorem setWeight_never_throws:
  "\<exists>this'. setWeight frameName weight this = Inr this'
     \<and> this' = this\<lparr> rotation_weights := rotation_weights this' \<rparr>
     \<and> (if contains (rotation_weights this) frameName
         then \<exists>i. getIndex (rotation_weights this) frameName = Some i
                \<and> rotation_weights this'
                    = (rotation_weights this)
                        [i := \<lparr> w_name = frameName, w_weight = weight \<rparr>]
         else rotation_weights this'
                = rotation_weights this @ [\<lparr> w_name = frameName, w_weight = weight \<rparr>])
     \<and> contains (rotation_weights this') frameName
     \<and> (\<exists>i. getIndex (rotation_weights this') frameName = Some i
            \<and> rotation_weights this' ! i = \<lparr> w_name = frameName, w_weight = weight \<rparr>)"
proof (cases "contains (rotation_weights this) frameName")
  case True
  then obtain i where i: "getIndex (rotation_weights this) frameName = Some i"
    by (auto simp: contains_def)
  let ?s = "rotation_weights this"
  let ?w = "\<lparr> w_name = frameName, w_weight = weight \<rparr>"
  let ?s' = "?s[i := ?w]"
  from getIndex_Some [OF i] have lt: "i < length ?s" and nm: "w_name (?s ! i) = frameName"
    and first: "\<forall>j<i. w_name (?s ! j) \<noteq> frameName" by simp_all
  have upd: "MocoWeight_setWeight (?s ! i) weight = ?w"
    using nm by (simp add: MocoWeight_setWeight_def)
  have res: "setWeight frameName weight this = Inr (this\<lparr> rotation_weights := ?s' \<rparr>)"
    using True i upd by (simp add: setWeight_def Set_get_def)
  have idx: "getIndex ?s' frameName = Some i"
  proof (rule getIndex_first)
    show "i < length ?s'" using lt by simp
    show "w_name (?s' ! i) = frameName" using lt by simp
    show "\<forall>j<i. w_name (?s' ! j) \<noteq> frameName" using first by simp
  qed
  have "?s' ! i = ?w" using lt by simp
  with res idx True i show ?thesis by (simp add: contains_def)
next
  case False
  let ?s = "rotation_weights this"
  let ?w = "\<lparr> w_name = frameName, w_weight = weight \<rparr>"
  let ?s' = "?s @ [?w]"
  from False have none: "\<forall>w \<in> set ?s. w_name w \<noteq> frameName"
    by (simp add: contains_def getIndex_None)
  have res: "setWeight frameName weight this = Inr (this\<lparr> rotation_weights := ?s' \<rparr>)"
    using False by (simp add: setWeight_def cloneAndAppend_def)
  have idx: "getIndex ?s' frameName = Some (length ?s)"
  proof (rule getIndex_first)
    show "length ?s < length ?s'" by simp
    show "w_name (?s' ! length ?s) = frameName" by simp
    show "\<forall>j<length ?s. w_name (?s' ! j) \<noteq> frameName"
      using none by (simp add: nth_append)
  qed
  have "?s' ! length ?s = ?w" by simp
  with res idx False show ?thesis by (simp add: contains_def)
qed

theorem setWeight_never_throws_witness:
  "setWeight ''/bodyset/torso'' 7 example_cost
     = Inr (example_cost\<lparr> rotation_weights :=
              [\<lparr> w_name = ''/bodyset/torso'', w_weight = 7 \<rparr>,
               \<lparr> w_name = ''/bodyset/pelvis'', w_weight = 2 \<rparr>,
               \<lparr> w_name = ''/bodyset/torso'', w_weight = 3 \<rparr>] \<rparr>)
   \<and> setWeight ''/bodyset/femur_r'' 7 example_cost
     = Inr (example_cost\<lparr> rotation_weights :=
              [\<lparr> w_name = ''/bodyset/torso'', w_weight = 1 \<rparr>,
               \<lparr> w_name = ''/bodyset/pelvis'', w_weight = 2 \<rparr>,
               \<lparr> w_name = ''/bodyset/torso'', w_weight = 3 \<rparr>,
               \<lparr> w_name = ''/bodyset/femur_r'', w_weight = 7 \<rparr>] \<rparr>)"
  using setWeight_never_throws [of "''/bodyset/torso''" 7 example_cost]
        setWeight_never_throws [of "''/bodyset/femur_r''" 7 example_cost]
  by (simp add: setWeight_def contains_def Set_get_def MocoWeight_setWeight_def
        cloneAndAppend_def example_cost_def constructProperties_def)

subsection \<open>simulate\<close>

lemma initialState_emit: "initialState (emit es fr) = initialState fr"
  by (simp add: emit_def)

lemma initialState_wait_for_key:
  "wait_for_key model keys fr = Some (brk, rest, fr1) \<Longrightarrow> initialState fr1 = initialState fr"
  by (auto simp: wait_for_key_def initialState_emit split: if_splits list.splits)

lemma initialState_simulate_body:
  "initialState (simulate_body integrate model finalTime saveStatesFile initialTime fr)
     = initialState fr"
  by (simp add: simulate_body_def Let_def initialState_emit)

lemma simulateOnce_simulate_body:
  "simulateOnce (simulate_body integrate model finalTime saveStatesFile initialTime fr)
     = simulateOnce fr"
  by (simp add: simulate_body_def Let_def emit_def)

lemma initialState_simulate_loop:
  assumes "simulate_loop integrate model finalTime saveStatesFile initialTime keys fr = Some fr'"
  shows "initialState fr' = initialState fr"
proof (rule simulate_loop.raw_induct
         [where P = "\<lambda>_ _ _ _ _ _ a b. initialState b = initialState a", OF _ assms],
       goal_cases)
  case (1 loop integrate model finalTime saveStatesFile initialTime keys fr fr')
  note IH = "1"(1) and body = "1"(2)
  from body obtain brk rest fr1
    where w: "wait_for_key model keys fr = Some (brk, rest, fr1)"
    by (cases "wait_for_key model keys fr") auto
  note keep = initialState_wait_for_key [OF w]
  let ?b = "simulate_body integrate model finalTime saveStatesFile initialTime fr1"
  show ?case
  proof (cases brk)
    case True
    with body w keep show ?thesis by simp
  next
    case False
    show ?thesis
    proof (cases "simulateOnce ?b")
      case True
      with body w \<open>\<not> brk\<close> have "fr' = ?b" by simp
      with keep show ?thesis by (simp add: initialState_simulate_body)
    next
      case once: False
      with body w \<open>\<not> brk\<close>
      have "loop integrate model finalTime saveStatesFile initialTime rest ?b = Some fr'"
        by simp
      from IH [OF this] have "initialState fr' = initialState ?b" .
      with keep show ?thesis by (simp add: initialState_simulate_body)
    qed
  qed
qed

lemma simulate_without_visualizer:
  assumes "\<not> getUseVisualizer model" and "getTime initialState0 < finalTime"
  shows "\<exists>fr. simulate integrate keys model initialState0 finalTime saveStatesFile = Some fr
      \<and> state fr = integrate model (setTime initialState0 (getTime initialState0)) finalTime
      \<and> initialState fr = initialState0"
proof -
  let ?fr = "\<lparr> initialState = initialState0, state = initialState0,
                 simulateOnce = True, events = [] \<rparr>"
  have "simulate integrate keys model initialState0 finalTime saveStatesFile
          = simulate_loop integrate model finalTime saveStatesFile (getTime initialState0)
              keys ?fr"
    using assms by (simp add: simulate_def)
  also have "\<dots> = Some (simulate_body integrate model finalTime saveStatesFile
                          (getTime initialState0) ?fr)"
    using assms(1)
    by (subst simulate_loop.simps) (simp add: wait_for_key_def simulateOnce_simulate_body)
  finally show ?thesis
    by (simp add: simulate_body_def emit_def Let_def)
qed

lemma simulateOnce_emit: "simulateOnce (emit es fr) = simulateOnce fr"
  by (simp add: emit_def)

lemma simulate_loop_returns_with_visualizer:
  assumes "getUseVisualizer model" and "KeyEsc \<in> set keys" and "\<not> simulateOnce fr"
  shows "\<exists>fr'. simulate_loop integrate model finalTime saveStatesFile initialTime keys fr
                 = Some fr'"
  using assms(2,3)
proof (induction keys arbitrary: fr)
  case Nil
  then show ?case by simp
next
  case (Cons k rest)
  let ?fr1 = "emit [Silo_clear, Silo_waitForKeyHit k] fr"
  let ?b = "simulate_body integrate model finalTime saveStatesFile initialTime ?fr1"
  have w: "wait_for_key model (k # rest) fr = Some (k = KeyEsc, rest, ?fr1)"
    using assms(1) by (simp add: wait_for_key_def)
  have step: "simulate_loop integrate model finalTime saveStatesFile initialTime (k # rest) fr
      = (if k = KeyEsc then Some ?fr1
         else if \<not> simulateOnce ?b
              then simulate_loop integrate model finalTime saveStatesFile initialTime rest ?b
              else Some ?b)"
    by (subst simulate_loop.simps) (simp add: w)
  show ?case
  proof (cases "k = KeyEsc")
    case True
    show ?thesis unfolding step using True by simp
  next
    case False
    with Cons.prems have esc: "KeyEsc \<in> set rest" by auto
    have once: "\<not> simulateOnce ?b"
      using Cons.prems by (simp add: simulateOnce_simulate_body simulateOnce_emit)
    from Cons.IH [OF esc once] obtain fr'
      where "simulate_loop integrate model finalTime saveStatesFile initialTime rest ?b
               = Some fr'" by blast
    then show ?thesis unfolding step using False once by simp
  qed
qed

lemma simulate_returns:
  assumes "\<not> getUseVisualizer model \<or> KeyEsc \<in> set keys"
  shows "\<exists>fr. simulate integrate keys model initialState0 finalTime saveStatesFile = Some fr"
proof (cases "finalTime \<le> getTime initialState0")
  case True
  then show ?thesis by (simp add: simulate_def)
next
  case future: False
  show ?thesis
  proof (cases "getUseVisualizer model")
    case True
    with assms have esc: "KeyEsc \<in> set keys" by simp
    let ?fr = "(emit [Viz_addDecoration_help, Viz_setShowSimTime,
                      Viz_drawFrameNow initialState0, Cout_visualizer_opened]
                 \<lparr> initialState = initialState0, state = initialState0,
                   simulateOnce = True, events = [] \<rparr>) \<lparr> simulateOnce := False \<rparr>"
    have "\<not> simulateOnce ?fr" by simp
    from simulate_loop_returns_with_visualizer [OF True esc this]
    obtain fr' where "simulate_loop integrate model finalTime saveStatesFile
                        (getTime initialState0) keys ?fr = Some fr'" by blast
    with True future show ?thesis by (simp add: simulate_def)
  next
    case False
    with future have "getTime initialState0 < finalTime" by simp
    from simulate_without_visualizer [OF False this] show ?thesis by blast
  qed
qed

text \<open>
  C10. If the requested final time is less than or equal to the time of the initial
  state, \<open>simulate\<close> returns, the returned state is the provided initial state, and the
  only thing it has done is to print the message that the simulation is aborted: the
  integrator is not run. And in every case, whenever \<open>simulate\<close> returns, the caller's
  initial state is what it was before the call (it does return when the model has no
  visualizer, and with a visualizer when the ESC key is eventually pressed).
\<close>

theorem simulate_final_time_not_in_future:
  "(finalTime \<le> getTime initialState0 \<longrightarrow>
      simulate integrate keys model initialState0 finalTime saveStatesFile
        = Some \<lparr> initialState = initialState0, state = initialState0, simulateOnce = True,
                 events = [Cout_simulation_aborted (getTime initialState0)] \<rparr>)
   \<and> (\<forall>fr. simulate integrate keys model initialState0 finalTime saveStatesFile = Some fr
          \<longrightarrow> initialState fr = initialState0)
   \<and> (\<not> getUseVisualizer model \<or> KeyEsc \<in> set keys \<longrightarrow>
        (\<exists>fr. simulate integrate keys model initialState0 finalTime saveStatesFile = Some fr))"
proof (intro conjI impI allI)
  assume "finalTime \<le> getTime initialState0"
  then show "simulate integrate keys model initialState0 finalTime saveStatesFile
        = Some \<lparr> initialState = initialState0, state = initialState0, simulateOnce = True,
                 events = [Cout_simulation_aborted (getTime initialState0)] \<rparr>"
    by (simp add: simulate_def emit_def)
next
  fix fr
  assume r: "simulate integrate keys model initialState0 finalTime saveStatesFile = Some fr"
  show "initialState fr = initialState0"
  proof (cases "finalTime \<le> getTime initialState0")
    case True
    with r show ?thesis by (auto simp: simulate_def emit_def)
  next
    case False
    with r show ?thesis
      by (auto simp: simulate_def Let_def initialState_emit split: if_splits
               dest!: initialState_simulate_loop)
  qed
next
  assume "\<not> getUseVisualizer model \<or> KeyEsc \<in> set keys"
  then show "\<exists>fr. simulate integrate keys model initialState0 finalTime saveStatesFile
                 = Some fr"
    by (rule simulate_returns)
qed

theorem simulate_final_time_not_in_future_witness:
  "simulate example_integrate [] \<lparr> m_useVisualizer = False, m_name = ''dp'' \<rparr>
       example_state (1 / 2) True
     = Some \<lparr> initialState = example_state, state = example_state, simulateOnce = True,
              events = [Cout_simulation_aborted 1] \<rparr>
   \<and> (\<exists>fr. simulate example_integrate [] \<lparr> m_useVisualizer = False, m_name = ''dp'' \<rparr>
              example_state 2 True = Some fr
          \<and> state fr = \<lparr> s_time = 2, s_values = [1, 1] \<rparr>
          \<and> initialState fr = example_state)"
proof -
  let ?model = "\<lparr> m_useVisualizer = False, m_name = ''dp'' \<rparr>"
  have t: "getTime example_state = 1"
    by (simp add: getTime_def example_state_def)
  have "(1 / 2 :: real) \<le> getTime example_state"
    by (simp add: t)
  with simulate_final_time_not_in_future
         [of "1 / 2" example_state example_integrate "[]" ?model True]
  have a: "simulate example_integrate [] ?model example_state (1 / 2) True
     = Some \<lparr> initialState = example_state, state = example_state, simulateOnce = True,
              events = [Cout_simulation_aborted 1] \<rparr>"
    by (simp add: t)
  have "\<not> getUseVisualizer ?model" "getTime example_state < 2"
    by (simp_all add: getUseVisualizer_def t)
  from simulate_without_visualizer [OF this, of example_integrate "[]" True]
  obtain fr where fr: "simulate example_integrate [] ?model example_state 2 True = Some fr"
    "state fr = example_integrate ?model (setTime example_state (getTime example_state)) 2"
    by blast
  from simulate_final_time_not_in_future
         [of 2 example_state example_integrate "[]" ?model True] fr(1)
  have "initialState fr = example_state" by blast
  with fr a show ?thesis by (simp add: example_integrate_def)
qed

subsection \<open>Trapezoidal quadrature\<close>

lemma interior_weights_sum:
  fixes t :: "nat \<Rightarrow> real"
  shows "(\<Sum>k = 1..<Suc n. (t (k + 1) - t (k - 1)) / 2) = (t (n + 1) + t n - t 1 - t 0) / 2"
proof (induction n)
  case 0
  show ?case by simp
next
  case (Suc n)
  have "(\<Sum>k = 1..<Suc (Suc n). (t (k + 1) - t (k - 1)) / 2)
          = (\<Sum>k = 1..<Suc n. (t (k + 1) - t (k - 1)) / 2) + (t (n + 2) - t n) / 2"
    by simp
  also have "\<dots> = (t (n + 1) + t n - t 1 - t 0) / 2 + (t (n + 2) - t n) / 2"
    by (simp only: Suc.IH)
  also have "\<dots> = (t (Suc n + 1) + t (Suc n) - t 1 - t 0) / 2"
    by (simp add: field_simps)
  finally show ?case .
qed

lemma quadratureCoefficient_sum:
  assumes "2 \<le> length mesh"
  shows "(\<Sum>k = 0..<length mesh. quadratureCoefficient mesh k)
           = mesh ! (length mesh - 1) - mesh ! 0"
proof -
  from assms obtain n where N: "length mesh = n + 2"
    by (metis add.commute le_Suc_ex)
  let ?t = "\<lambda>k. mesh ! k"
  have first: "quadratureCoefficient mesh 0 = (?t 1 - ?t 0) / 2"
    by (simp add: quadratureCoefficient_def meshInterval_def Let_def)
  have last: "quadratureCoefficient mesh (n + 1) = (?t (n + 1) - ?t n) / 2"
    using N by (simp add: quadratureCoefficient_def meshInterval_def Let_def)
  have interior: "(\<Sum>k = 1..<Suc n. quadratureCoefficient mesh k)
                    = (\<Sum>k = 1..<Suc n. (?t (k + 1) - ?t (k - 1)) / 2)"
  proof (rule sum.cong)
    fix k assume "k \<in> {1..<Suc n}"
    then have "k \<noteq> 0" "k \<noteq> length mesh - 1" using N by auto
    then show "quadratureCoefficient mesh k = (?t (k + 1) - ?t (k - 1)) / 2"
      by (simp add: quadratureCoefficient_def meshInterval_def Let_def)
  qed simp
  have "(\<Sum>k = 0..<length mesh. quadratureCoefficient mesh k)
          = quadratureCoefficient mesh 0
            + (\<Sum>k = 1..<Suc n. quadratureCoefficient mesh k)
            + quadratureCoefficient mesh (n + 1)"
    using N by (simp add: sum.atLeast_Suc_lessThan)
  also have "\<dots> = (?t 1 - ?t 0) / 2 + (?t (n + 1) + ?t n - ?t 1 - ?t 0) / 2
                    + (?t (n + 1) - ?t n) / 2"
    by (simp only: first last interior interior_weights_sum)
  also have "\<dots> = ?t (n + 1) - ?t 0"
    by (simp add: field_simps)
  finally show ?thesis using N by simp
qed

text \<open>
  C4. For a mesh \<open>t\<^sub>0 < t\<^sub>1 < \<dots> < t\<^sub>N\<^sub>-\<^sub>1\<close> of \<open>N \<ge> 2\<close> nodes with interval widths
  \<open>h\<^sub>k = t\<^sub>k\<^sub>+\<^sub>1 - t\<^sub>k\<close>, the trapezoidal quadrature coefficients are \<open>w\<^sub>0 = h\<^sub>0/2\<close>,
  \<open>w\<^sub>N\<^sub>-\<^sub>1 = h\<^sub>N\<^sub>-\<^sub>2/2\<close> and \<open>w\<^sub>k = (h\<^sub>k\<^sub>-\<^sub>1 + h\<^sub>k)/2\<close> for every interior \<open>k\<close>; on a uniform mesh
  of width \<open>h\<close> they are \<open>h/2\<close> at both ends and \<open>h\<close> inside; and they sum to
  \<open>t\<^sub>N\<^sub>-\<^sub>1 - t\<^sub>0\<close>.
\<close>

theorem trapezoidal_quadrature_coefficients:
  assumes "sorted_wrt (<) mesh" and "2 \<le> length mesh"
  shows "length (createQuadratureCoefficients mesh) = length mesh
       \<and> createQuadratureCoefficients mesh ! 0 = (mesh ! 1 - mesh ! 0) / 2
       \<and> createQuadratureCoefficients mesh ! (length mesh - 1)
           = (mesh ! (length mesh - 1) - mesh ! (length mesh - 2)) / 2
       \<and> (\<forall>k. 0 < k \<and> k < length mesh - 1 \<longrightarrow>
             createQuadratureCoefficients mesh ! k
               = ((mesh ! k - mesh ! (k - 1)) + (mesh ! (k + 1) - mesh ! k)) / 2)
       \<and> (\<forall>h. (\<forall>k < length mesh - 1. mesh ! (k + 1) - mesh ! k = h) \<longrightarrow>
             createQuadratureCoefficients mesh ! 0 = h / 2
           \<and> createQuadratureCoefficients mesh ! (length mesh - 1) = h / 2
           \<and> (\<forall>k. 0 < k \<and> k < length mesh - 1 \<longrightarrow>
                 createQuadratureCoefficients mesh ! k = h))
       \<and> sum_list (createQuadratureCoefficients mesh) = mesh ! (length mesh - 1) - mesh ! 0"
proof -
  let ?N = "length mesh"
  let ?w = "createQuadratureCoefficients mesh"
  have len: "length ?w = ?N"
    by (simp add: createQuadratureCoefficients_def)
  have nth: "?w ! k = quadratureCoefficient mesh k" if "k < ?N" for k
    using that by (simp add: createQuadratureCoefficients_def)
  have w0: "?w ! 0 = (mesh ! 1 - mesh ! 0) / 2"
  proof -
    have "0 < ?N" using assms(2) by linarith
    from nth [OF this] show ?thesis
      by (simp add: quadratureCoefficient_def meshInterval_def Let_def)
  qed
  have wl: "?w ! (?N - 1) = (mesh ! (?N - 1) - mesh ! (?N - 2)) / 2"
  proof -
    have "?N - 1 < ?N" using assms(2) by linarith
    from nth [OF this]
    have "?w ! (?N - 1) = quadratureCoefficient mesh (?N - 1)" .
    moreover have "?N - 1 \<noteq> 0" "Suc (?N - 2) = ?N - 1" using assms(2) by auto
    ultimately show ?thesis
      by (simp add: quadratureCoefficient_def meshInterval_def Let_def)
  qed
  have wk: "?w ! k = ((mesh ! k - mesh ! (k - 1)) + (mesh ! (k + 1) - mesh ! k)) / 2"
    if "0 < k" "k < ?N - 1" for k
  proof -
    have "k < ?N" using that by linarith
    from nth [OF this] that show ?thesis
      by (simp add: quadratureCoefficient_def meshInterval_def Let_def)
  qed
  have uniform: "?w ! 0 = h / 2 \<and> ?w ! (?N - 1) = h / 2
                 \<and> (\<forall>k. 0 < k \<and> k < ?N - 1 \<longrightarrow> ?w ! k = h)"
    if u: "\<forall>k < ?N - 1. mesh ! (k + 1) - mesh ! k = h" for h
  proof (intro conjI allI impI)
    from u assms(2) have "mesh ! (0 + 1) - mesh ! 0 = h" by auto
    then show "?w ! 0 = h / 2" by (simp add: w0)
  next
    have lt: "?N - 2 < ?N - 1" and eq: "?N - 2 + 1 = ?N - 1" using assms(2) by linarith+
    from u lt have "mesh ! (?N - 2 + 1) - mesh ! (?N - 2) = h" by blast
    then have e: "mesh ! (?N - 1) - mesh ! (?N - 2) = h" by (simp only: eq)
    show "?w ! (?N - 1) = h / 2" by (simp only: wl e)
  next
    fix k assume k: "0 < k \<and> k < ?N - 1"
    with u have a: "mesh ! (k + 1) - mesh ! k = h" by simp
    have lt: "k - 1 < ?N - 1" and eq: "k - 1 + 1 = k" using k by linarith+
    from u lt have "mesh ! (k - 1 + 1) - mesh ! (k - 1) = h" by blast
    then have b: "mesh ! k - mesh ! (k - 1) = h" by (simp only: eq)
    from k have "?w ! k = ((mesh ! k - mesh ! (k - 1)) + (mesh ! (k + 1) - mesh ! k)) / 2"
      by (simp add: wk)
    then show "?w ! k = h" by (simp only: a b) simp
  qed
  have total: "sum_list ?w = mesh ! (?N - 1) - mesh ! 0"
    using quadratureCoefficient_sum [OF assms(2)]
    by (simp add: createQuadratureCoefficients_def interv_sum_list_conv_sum_set_nat)
  from len w0 wl wk uniform total show ?thesis by blast
qed

theorem trapezoidal_quadrature_coefficients_witness:
  "sorted_wrt (<) example_mesh \<and> 2 \<le> length example_mesh
   \<and> createQuadratureCoefficients example_mesh = [1 / 8, 1 / 2, 3 / 8]
   \<and> sum_list (createQuadratureCoefficients example_mesh) = 1"
proof -
  have h1: "sorted_wrt (<) example_mesh" by (simp add: example_mesh_def)
  have h2: "2 \<le> length example_mesh" by (simp add: example_mesh_def)
  have v: "createQuadratureCoefficients example_mesh = [1 / 8, 1 / 2, 3 / 8]"
    by (simp add: createQuadratureCoefficients_def quadratureCoefficient_def
          meshInterval_def example_mesh_def upt_rec)
  from trapezoidal_quadrature_coefficients [OF h1 h2]
  have "sum_list (createQuadratureCoefficients example_mesh)
          = example_mesh ! (length example_mesh - 1) - example_mesh ! 0" by blast
  then have "sum_list (createQuadratureCoefficients example_mesh) = 1"
    by (simp add: example_mesh_def)
  with h1 h2 v show ?thesis by blast
qed

subsection \<open>Trapezoidal defect constraints and the size of the NLP\<close>

lemma length_vec_add: "length (vec_add a b) = min (length a) (length b)"
  by (simp add: vec_add_def)

lemma length_vec_sub: "length (vec_sub a b) = min (length a) (length b)"
  by (simp add: vec_sub_def)

lemma length_vec_scale: "length (vec_scale c a) = length a"
  by (simp add: vec_scale_def)

lemma length_defect:
  "length (defect h x_k x_k1 xdot_k xdot_k1)
     = min (min (length x_k1) (length x_k)) (min (length xdot_k) (length xdot_k1))"
  by (simp add: defect_def length_vec_add length_vec_sub length_vec_scale)

lemma nth_defect:
  assumes "i < length x_k" "i < length x_k1" "i < length xdot_k" "i < length xdot_k1"
  shows "defect h x_k x_k1 xdot_k xdot_k1 ! i
           = x_k1 ! i - x_k ! i - (h / 2) * (xdot_k ! i + xdot_k1 ! i)"
  using assms by (simp add: defect_def vec_add_def vec_sub_def vec_scale_def)

lemma defect_blocks_applyConstraints:
  "defect_blocks (applyConstraints problem mesh states xdot path)
     = map (defect_block mesh states xdot) [0..<length mesh - 1]"
proof -
  have d: "filter is_defect (map (defect_block mesh states xdot) ks)
             = map (defect_block mesh states xdot) ks" for ks
    by (induction ks) (simp_all add: defect_block_def)
  have p: "filter is_defect (map (path_block problem path) ks) = []" for ks
    by (induction ks) (simp_all add: path_block_def)
  show ?thesis
    by (simp add: defect_blocks_def applyConstraints_def d p)
qed

lemma path_blocks_applyConstraints:
  "path_blocks (applyConstraints problem mesh states xdot path)
     = map (path_block problem path) [0..<length mesh]"
proof -
  have d: "filter (\<lambda>b. \<not> is_defect b) (map (defect_block mesh states xdot) ks) = []" for ks
    by (induction ks) (simp_all add: defect_block_def)
  have p: "filter (\<lambda>b. \<not> is_defect b) (map (path_block problem path) ks)
             = map (path_block problem path) ks" for ks
    by (induction ks) (simp_all add: path_block_def)
  show ?thesis
    by (simp add: path_blocks_def applyConstraints_def d p)
qed

lemma example_dimensions:
  "\<forall>k < length example_mesh. length (example_states ! k) = n_x example_problem
                              \<and> length (example_xdot ! k) = n_x example_problem"
proof (intro allI impI)
  fix k assume "k < length example_mesh"
  then have "k = 0 \<or> k = 1 \<or> k = 2" by (auto simp: example_mesh_def)
  then show "length (example_states ! k) = n_x example_problem
           \<and> length (example_xdot ! k) = n_x example_problem"
    by (auto simp: example_states_def example_xdot_def example_problem_def)
qed

text \<open>
  C3. For a mesh of \<open>N \<ge> 2\<close> strictly increasing nodes, with a state vector and a
  dynamics derivative of dimension \<open>n_x\<close> at every node, the trapezoidal scheme emits
  exactly one defect block per mesh interval \<open>k = 0, \<dots>, N-2\<close>, in this order; block \<open>k\<close>
  has \<open>n_x\<close> rows, and row \<open>i\<close> constrains
  \<open>x\<^sub>k\<^sub>+\<^sub>1 - x\<^sub>k - (h\<^sub>k/2) (xdot\<^sub>k + xdot\<^sub>k\<^sub>+\<^sub>1)\<close>, component \<open>i\<close>, between the lower bound
  \<open>0\<close> and the upper bound \<open>0\<close>: an equality, not a tolerance band.
\<close>

theorem trapezoidal_defect_constraints:
  assumes "sorted_wrt (<) mesh" and "2 \<le> length mesh"
      and "length states = length mesh" and "length xdot = length mesh"
      and "\<forall>k < length mesh. length (states ! k) = n_x problem
                              \<and> length (xdot ! k) = n_x problem"
  shows "length (defect_blocks (applyConstraints problem mesh states xdot path))
           = length mesh - 1
       \<and> (\<forall>k < length mesh - 1.
            \<exists>rows. defect_blocks (applyConstraints problem mesh states xdot path) ! k
                      = (Defect k, rows)
                  \<and> length rows = n_x problem
                  \<and> (\<forall>i < n_x problem.
                        rows ! i
                          = \<lparr> c_lower = Some 0, c_upper = Some 0,
                              c_expr = states ! (k + 1) ! i - states ! k ! i
                                       - ((mesh ! (k + 1) - mesh ! k) / 2)
                                         * (xdot ! k ! i + xdot ! (k + 1) ! i) \<rparr>))"
proof (intro conjI allI impI)
  show "length (defect_blocks (applyConstraints problem mesh states xdot path))
          = length mesh - 1"
    by (simp add: defect_blocks_applyConstraints)
next
  fix k assume k: "k < length mesh - 1"
  then have k0: "k < length mesh" and k1: "k + 1 < length mesh" by linarith+
  from assms(5) k0 k1
  have dims: "length (states ! k) = n_x problem" "length (xdot ! k) = n_x problem"
    "length (states ! (k + 1)) = n_x problem" "length (xdot ! (k + 1)) = n_x problem"
    by blast+
  let ?d = "defect (meshInterval mesh k) (states ! k) (states ! (k + 1))
              (xdot ! k) (xdot ! (k + 1))"
  let ?rows = "map equality_constraint ?d"
  have blk: "defect_blocks (applyConstraints problem mesh states xdot path) ! k
               = (Defect k, ?rows)"
    using k by (simp add: defect_blocks_applyConstraints defect_block_def)
  have len: "length ?rows = n_x problem"
    using dims by (simp add: length_defect)
  have row: "?rows ! i
               = \<lparr> c_lower = Some 0, c_upper = Some 0,
                   c_expr = states ! (k + 1) ! i - states ! k ! i
                            - ((mesh ! (k + 1) - mesh ! k) / 2)
                              * (xdot ! k ! i + xdot ! (k + 1) ! i) \<rparr>"
    if "i < n_x problem" for i
  proof -
    have "i < length ?d" using that dims by (simp add: length_defect)
    then have r: "?rows ! i = equality_constraint (?d ! i)" by (rule nth_map)
    have e: "?d ! i = states ! (k + 1) ! i - states ! k ! i
                        - (meshInterval mesh k / 2) * (xdot ! k ! i + xdot ! (k + 1) ! i)"
      using that dims by (intro nth_defect) simp_all
    from r have "?rows ! i
        = equality_constraint
            (states ! (k + 1) ! i - states ! k ! i
               - (meshInterval mesh k / 2) * (xdot ! k ! i + xdot ! (k + 1) ! i))"
      by (simp only: e)
    then show ?thesis
      by (simp add: equality_constraint_def meshInterval_def)
  qed
  from blk len row
  show "\<exists>rows. defect_blocks (applyConstraints problem mesh states xdot path) ! k
                  = (Defect k, rows)
              \<and> length rows = n_x problem
              \<and> (\<forall>i < n_x problem.
                    rows ! i
                      = \<lparr> c_lower = Some 0, c_upper = Some 0,
                          c_expr = states ! (k + 1) ! i - states ! k ! i
                                   - ((mesh ! (k + 1) - mesh ! k) / 2)
                                     * (xdot ! k ! i + xdot ! (k + 1) ! i) \<rparr>)"
    by blast
qed

theorem trapezoidal_defect_constraints_witness:
  "sorted_wrt (<) example_mesh \<and> 2 \<le> length example_mesh
   \<and> length example_states = length example_mesh
   \<and> length example_xdot = length example_mesh
   \<and> length (defect_blocks (applyConstraints example_problem example_mesh example_states
                example_xdot example_path)) = 2
   \<and> defect_blocks (applyConstraints example_problem example_mesh example_states
        example_xdot example_path)
       = [(Defect 0, [\<lparr> c_lower = Some 0, c_upper = Some 0, c_expr = 1 / 4 \<rparr>,
                      \<lparr> c_lower = Some 0, c_upper = Some 0, c_expr = 7 / 4 \<rparr>]),
          (Defect 1, [\<lparr> c_lower = Some 0, c_upper = Some 0, c_expr = 1 / 4 \<rparr>,
                      \<lparr> c_lower = Some 0, c_upper = Some 0, c_expr = - (13 / 4) \<rparr>])]"
proof -
  have h1: "sorted_wrt (<) example_mesh" by (simp add: example_mesh_def)
  have h2: "2 \<le> length example_mesh" by (simp add: example_mesh_def)
  have h3: "length example_states = length example_mesh"
    by (simp add: example_states_def example_mesh_def)
  have h4: "length example_xdot = length example_mesh"
    by (simp add: example_xdot_def example_mesh_def)
  from trapezoidal_defect_constraints [OF h1 h2 h3 h4 example_dimensions, of example_path]
  have "length (defect_blocks (applyConstraints example_problem example_mesh example_states
                  example_xdot example_path)) = length example_mesh - 1"
    by blast
  then have n: "length (defect_blocks (applyConstraints example_problem example_mesh
                  example_states example_xdot example_path)) = 2"
    by (simp add: example_mesh_def)
  have v: "defect_blocks (applyConstraints example_problem example_mesh example_states
        example_xdot example_path)
       = [(Defect 0, [\<lparr> c_lower = Some 0, c_upper = Some 0, c_expr = 1 / 4 \<rparr>,
                      \<lparr> c_lower = Some 0, c_upper = Some 0, c_expr = 7 / 4 \<rparr>]),
          (Defect 1, [\<lparr> c_lower = Some 0, c_upper = Some 0, c_expr = 1 / 4 \<rparr>,
                      \<lparr> c_lower = Some 0, c_upper = Some 0, c_expr = - (13 / 4) \<rparr>])]"
    by (simp add: defect_blocks_applyConstraints defect_block_def defect_def vec_add_def
          vec_sub_def vec_scale_def equality_constraint_def meshInterval_def
          example_mesh_def example_states_def example_xdot_def upt_rec)
  from h1 h2 h3 h4 n v show ?thesis by blast
qed

lemma sum_list_constant:
  "(\<forall>x \<in> set xs. f x = (c::nat)) \<Longrightarrow> sum_list (map f xs) = length xs * c"
  by (induction xs) simp_all

lemma length_node_variables:
  "length (node_variables problem N k) = n_x problem + n_u problem"
  by (simp add: node_variables_def)

lemma length_createVariables:
  assumes "createVariablesAndSetBounds this = Inr t"
  shows "length (t_variables t)
           = nat (t_numMeshPoints this) * (n_x (t_problem this) + n_u (t_problem this))
             + n_p (t_problem this)
             + (if hasIntegralCost (t_problem this) then 1 else 0)"
proof -
  let ?p = "t_problem this" and ?N = "nat (t_numMeshPoints this)"
  have nodes: "length (concat (map (node_variables ?p ?N) [0..<?N]))
                 = ?N * (n_x ?p + n_u ?p)"
  proof -
    have "length (concat (map (node_variables ?p ?N) [0..<?N]))
            = sum_list (map (\<lambda>k. length (node_variables ?p ?N k)) [0..<?N])"
      by (simp add: length_concat comp_def)
    also have "\<dots> = length [0..<?N] * (n_x ?p + n_u ?p)"
      by (rule sum_list_constant) (simp add: length_node_variables)
    finally show ?thesis by simp
  qed
  from assms have "t_variables t
      = concat (map (node_variables ?p ?N) [0..<?N])
        @ map (\<lambda>j. (Parameter_var j, parameterBounds ?p j)) [0..<n_p ?p]
        @ (if hasIntegralCost ?p then [(Quadrature_var, (None, None))] else [])"
    by (auto simp: createVariablesAndSetBounds_def Let_def)
  then show ?thesis by (simp add: nodes)
qed

lemma quadrature_variable_count:
  assumes "createVariablesAndSetBounds this = Inr t"
  shows "length (filter (\<lambda>v. fst v = Quadrature_var) (t_variables t))
           = (if hasIntegralCost (t_problem this) then 1 else 0)"
proof -
  let ?p = "t_problem this" and ?N = "nat (t_numMeshPoints this)"
  have a: "filter (\<lambda>v. fst v = Quadrature_var) (node_variables ?p ?N k) = []" for k
    by (simp add: node_variables_def)
  have b: "filter (\<lambda>v. fst v = Quadrature_var)
             (concat (map (node_variables ?p ?N) ks)) = []" for ks
    by (induction ks) (simp_all add: a)
  have c: "filter (\<lambda>v. fst v = Quadrature_var)
             (map (\<lambda>j. (Parameter_var j, parameterBounds ?p j)) js) = []" for js
    by (induction js) simp_all
  from assms have "t_variables t
      = concat (map (node_variables ?p ?N) [0..<?N])
        @ map (\<lambda>j. (Parameter_var j, parameterBounds ?p j)) [0..<n_p ?p]
        @ (if hasIntegralCost ?p then [(Quadrature_var, (None, None))] else [])"
    by (auto simp: createVariablesAndSetBounds_def Let_def)
  then show ?thesis by (simp add: b c)
qed

lemma Trapezoidal_success:
  assumes "Trapezoidal cvsb solver problem = Inr t"
  shows "\<not> getEnforceConstraintDerivatives problem
       \<and> cvsb (Trapezoidal_base solver problem) = Inr t"
  using assms by (simp add: Trapezoidal_def split: if_splits)

text \<open>
  C5. For a problem with dimensions \<open>n_x\<close>, \<open>n_u\<close>, \<open>n_p\<close> and a mesh-point count \<open>N\<close>,
  the constructed Trapezoidal transcription has exactly \<open>N (n_x + n_u) + n_p\<close> decision
  variables, plus one if the problem has an integral cost and none otherwise (the
  quadrature variable occurs once or not at all, accordingly); its constraints have
  exactly \<open>(N - 1) n_x\<close> defect equations and one path-constraint block of size \<open>n_g\<close>
  for each of the \<open>N\<close> nodes.
\<close>

theorem nlp_dimensions:
  assumes "Trapezoidal createVariablesAndSetBounds solver problem = Inr t"
      and "length mesh = nat (getNumMeshPoints solver)"
      and "\<forall>k < length mesh. length (states ! k) = n_x problem
                              \<and> length (xdot ! k) = n_x problem"
  shows "length (t_variables t)
           = nat (getNumMeshPoints solver) * (n_x problem + n_u problem) + n_p problem
             + (if hasIntegralCost problem then 1 else 0)
       \<and> length (filter (\<lambda>v. fst v = Quadrature_var) (t_variables t))
           = (if hasIntegralCost problem then 1 else 0)
       \<and> num_equations (defect_blocks (applyConstraints problem mesh states xdot path))
           = (nat (getNumMeshPoints solver) - 1) * n_x problem
       \<and> length (path_blocks (applyConstraints problem mesh states xdot path))
           = nat (getNumMeshPoints solver)
       \<and> (\<forall>k < nat (getNumMeshPoints solver).
            \<exists>rows. path_blocks (applyConstraints problem mesh states xdot path) ! k
                      = (Path k, rows)
                  \<and> length rows = n_g problem)"
proof -
  let ?N = "nat (getNumMeshPoints solver)"
  let ?base = "Trapezoidal_base solver problem"
  from Trapezoidal_success [OF assms(1)]
  have cv: "createVariablesAndSetBounds ?base = Inr t" by simp
  have base: "t_problem ?base = problem" "t_numMeshPoints ?base = getNumMeshPoints solver"
    by (simp_all add: Trapezoidal_base_def Transcription_ctor_def)
  have vars: "length (t_variables t)
           = ?N * (n_x problem + n_u problem) + n_p problem
             + (if hasIntegralCost problem then 1 else 0)"
    using length_createVariables [OF cv] by (simp only: base)
  have quad: "length (filter (\<lambda>v. fst v = Quadrature_var) (t_variables t))
           = (if hasIntegralCost problem then 1 else 0)"
    using quadrature_variable_count [OF cv] by (simp only: base)
  have defects: "num_equations (defect_blocks (applyConstraints problem mesh states xdot path))
           = (?N - 1) * n_x problem"
  proof -
    have "\<forall>k \<in> set [0..<length mesh - 1].
            length (snd (defect_block mesh states xdot k)) = n_x problem"
    proof
      fix k assume "k \<in> set [0..<length mesh - 1]"
      then have "k < length mesh" "Suc k < length mesh" by auto
      with assms(3) have "length (states ! k) = n_x problem"
        "length (xdot ! k) = n_x problem" "length (states ! Suc k) = n_x problem"
        "length (xdot ! Suc k) = n_x problem" by blast+
      then show "length (snd (defect_block mesh states xdot k)) = n_x problem"
        by (simp add: defect_block_def length_defect)
    qed
    then have "sum_list (map (\<lambda>k. length (snd (defect_block mesh states xdot k)))
                 [0..<length mesh - 1]) = length [0..<length mesh - 1] * n_x problem"
      by (rule sum_list_constant)
    then show ?thesis
      by (simp add: num_equations_def defect_blocks_applyConstraints comp_def assms(2))
  qed
  have paths: "length (path_blocks (applyConstraints problem mesh states xdot path)) = ?N"
    by (simp add: path_blocks_applyConstraints assms(2))
  have block: "\<exists>rows. path_blocks (applyConstraints problem mesh states xdot path) ! k
                      = (Path k, rows) \<and> length rows = n_g problem"
    if "k < ?N" for k
    using that by (simp add: path_blocks_applyConstraints assms(2) path_block_def)
  from vars quad defects paths block show ?thesis by blast
qed

theorem nlp_dimensions_witness:
  "length example_mesh = nat (getNumMeshPoints example_solver)
   \<and> (\<exists>t. Trapezoidal createVariablesAndSetBounds example_solver example_problem = Inr t
          \<and> length (t_variables t) = 11
          \<and> length (filter (\<lambda>v. fst v = Quadrature_var) (t_variables t)) = 1)
   \<and> num_equations (defect_blocks (applyConstraints example_problem example_mesh
        example_states example_xdot example_path)) = 4
   \<and> length (path_blocks (applyConstraints example_problem example_mesh
        example_states example_xdot example_path)) = 3"
proof -
  have N: "nat (getNumMeshPoints example_solver) = 3"
    by (simp add: getNumMeshPoints_def example_solver_def)
  have h2: "length example_mesh = nat (getNumMeshPoints example_solver)"
    by (simp add: N example_mesh_def)
  have "\<not> getEnforceConstraintDerivatives example_problem"
    by (simp add: getEnforceConstraintDerivatives_def example_problem_def)
  then obtain t
    where h1: "Trapezoidal createVariablesAndSetBounds example_solver example_problem = Inr t"
    by (simp add: Trapezoidal_def createVariablesAndSetBounds_def Let_def)
  have p: "n_x example_problem = 2" "n_u example_problem = 1" "n_p example_problem = 1"
    "hasIntegralCost example_problem"
    by (simp_all add: example_problem_def)
  from nlp_dimensions [OF h1 h2 example_dimensions, of example_path] h1 h2
  show ?thesis by (simp add: N p)
qed

end
